theory Spec2Isabelle
  imports Complex_Main
begin

section \<open>Python values shared by both modules\<close>

text \<open>
  The exceptions the modelled code can raise. A function that can raise returns
  \<open>py_error + 'a\<close>, with \<open>Inl\<close> for the exception. numpy's float64 values are
  modelled as \<open>real\<close> (no NaN, no infinity), with the rounding of float64 arithmetic made
  explicit where a property depends on it: in the colour distances of the temperature
  assignment. Python's unbounded integers are \<open>int\<close>.
\<close>

datatype py_error = ValueError | IndexError | AttributeError | UnboundLocalError
  | RecursionError | IOError

definition bind_err :: "'e + 'a \<Rightarrow> ('a \<Rightarrow> 'e + 'b) \<Rightarrow> 'e + 'b" where
  "bind_err r f = (case r of Inl e \<Rightarrow> Inl e | Inr v \<Rightarrow> f v)"

text \<open>Python 3 \<open>round(x)\<close> with one argument: to the nearest integer, ties to the even one.\<close>

definition py_round :: "real \<Rightarrow> int" where
  "py_round v =
     (let f = \<lfloor>v\<rfloor>; d = v - of_int f
      in if d < 1 / 2 then f else if 1 / 2 < d then f + 1 else if even f then f else f + 1)"

text \<open>
  A slice bound \<open>i\<close> on an axis of length \<open>n\<close>: a negative bound counts from the end, and
  both are clipped to the axis. \<open>py_slice n a b\<close> is the index range \<open>a:b\<close> selects.
\<close>

definition slice_bound :: "int \<Rightarrow> int \<Rightarrow> int" where
  "slice_bound n i = (if i < 0 then max 0 (n + i) else min n i)"

definition py_slice :: "int \<Rightarrow> int \<Rightarrow> int \<Rightarrow> int \<times> int" where
  "py_slice n a b = (slice_bound n a, slice_bound n b)"

definition slice_len :: "int \<Rightarrow> int \<Rightarrow> int \<Rightarrow> nat" where
  "slice_len n a b = nat (slice_bound n b - slice_bound n a)"

text \<open>\<open>np.argmin\<close> of a one-dimensional array: the first index of the least element;
  it raises ValueError on an empty array.\<close>

fun argmin_from :: "nat \<Rightarrow> real \<Rightarrow> nat \<Rightarrow> real list \<Rightarrow> nat" where
  "argmin_from best bv i [] = best"
| "argmin_from best bv i (v # vs) =
     (if v < bv then argmin_from i v (Suc i) vs else argmin_from best bv (Suc i) vs)"

definition argmin :: "real list \<Rightarrow> py_error + nat" where
  "argmin vs = (case vs of [] \<Rightarrow> Inl ValueError | v # rest \<Rightarrow> Inr (argmin_from 0 v 1 rest))"

text \<open>\<open>np.where(xs == v)[0][0]\<close>: the first index holding \<open>v\<close>; IndexError when there is none.\<close>

fun where_first :: "real list \<Rightarrow> real \<Rightarrow> nat option" where
  "where_first [] v = None"
| "where_first (u # us) v = (if u = v then Some 0 else map_option Suc (where_first us v))"

text \<open>\<open>xs[i]\<close> for an index that is not negative: IndexError beyond the end.\<close>

definition py_nth :: "'a list \<Rightarrow> nat \<Rightarrow> py_error + 'a" where
  "py_nth xs i = (if i < length xs then Inr (xs ! i) else Inl IndexError)"

text \<open>
  An elementwise operation of numpy on two one-dimensional arrays: the lengths agree, or
  one of them is one and that array is repeated; anything else raises ValueError.
\<close>

definition broadcast2 :: "(real \<Rightarrow> real \<Rightarrow> real) \<Rightarrow> real list \<Rightarrow> real list \<Rightarrow> py_error + real list" where
  "broadcast2 f us vs =
     (if length us = length vs then Inr (map2 f us vs)
      else if length us = 1 then Inr (map (f (hd us)) vs)
      else if length vs = 1 then Inr (map (\<lambda>u. f u (hd vs)) us)
      else Inl ValueError)"

text \<open>A loop that builds an array element by element, any of which can raise.\<close>

fun map_err :: "('a \<Rightarrow> 'e + 'b) \<Rightarrow> 'a list \<Rightarrow> 'e + 'b list" where
  "map_err f [] = Inr []"
| "map_err f (v # vs) = bind_err (f v) (\<lambda>r. bind_err (map_err f vs) (\<lambda>rs. Inr (r # rs)))"

section \<open>Arrays of the field simulation\<close>

text \<open>
  A two-dimensional array is its shape and its cells; the simulation cube is
  \<open>simuCube\<close> of shape \<open>(nPA + 2, dimY, dimX)\<close>. Cells are read by index functions so that
  a cube of the real size can be reasoned about point by point.
\<close>

record array2 =
  n_rows :: nat
  n_cols :: nat
  cell :: "nat \<Rightarrow> nat \<Rightarrow> real"

record cube =
  n_planes :: nat
  height :: nat
  width :: nat
  voxel :: "nat \<Rightarrow> nat \<Rightarrow> nat \<Rightarrow> real"

definition zeros :: "nat \<Rightarrow> nat \<Rightarrow> nat \<Rightarrow> cube" where
  "zeros p h w = \<lparr>n_planes = p, height = h, width = w, voxel = (\<lambda>q i j. 0)\<rparr>"

text \<open>\<open>a[r0:r1, c0:c1] * fluxscale\<close>: the slice, normalised as Python does, scaled.\<close>

definition slice2 :: "array2 \<Rightarrow> int \<Rightarrow> int \<Rightarrow> int \<Rightarrow> int \<Rightarrow> real \<Rightarrow> array2" where
  "slice2 a r0 r1 c0 c1 fluxscale =
     \<lparr>n_rows = slice_len (int (n_rows a)) r0 r1,
      n_cols = slice_len (int (n_cols a)) c0 c1,
      cell = (\<lambda>i j. cell a (nat (slice_bound (int (n_rows a)) r0) + i)
                            (nat (slice_bound (int (n_cols a)) c0) + j) * fluxscale)\<rparr>"

text \<open>
  \<open>simuCube[p, a:b, c:d] = v\<close> (and \<open>+= v\<close> when \<open>acc\<close>): numpy broadcasts \<open>v\<close> to the
  shape of the destination slice, each axis of \<open>v\<close> having that length or length one, and
  raises ValueError otherwise; a plane index beyond the cube raises IndexError.
\<close>

definition broadcasts :: "array2 \<Rightarrow> nat \<Rightarrow> nat \<Rightarrow> bool" where
  "broadcasts v h w \<longleftrightarrow> (n_rows v = h \<or> n_rows v = 1) \<and> (n_cols v = w \<or> n_cols v = 1)"

definition bcell :: "array2 \<Rightarrow> nat \<Rightarrow> nat \<Rightarrow> real" where
  "bcell v i j = cell v (if n_rows v = 1 then 0 else i) (if n_cols v = 1 then 0 else j)"

definition put_slice :: "bool \<Rightarrow> cube \<Rightarrow> nat \<Rightarrow> int \<Rightarrow> int \<Rightarrow> int \<Rightarrow> int \<Rightarrow> array2 \<Rightarrow> py_error + cube" where
  "put_slice acc c p a b cc d v =
     (let ys = nat (slice_bound (int (height c)) a); h = slice_len (int (height c)) a b;
          xs = nat (slice_bound (int (width c)) cc); w = slice_len (int (width c)) cc d
      in if n_planes c \<le> p then Inl IndexError
         else if \<not> broadcasts v h w then Inl ValueError
         else Inr (c\<lparr>voxel := (\<lambda>q i j.
                if q = p \<and> ys \<le> i \<and> i < ys + h \<and> xs \<le> j \<and> j < xs + w
                then (if acc then voxel c q i j else 0) + bcell v (i - ys) (j - xs)
                else voxel c q i j)\<rparr>))"

section \<open>sossFieldSim: the field-rotation engine\<close>

text \<open>
  One entry of the structured array \<open>stars\<close>. \<open>starT\<close> is the field \<open>T\<close>, and
  \<open>star_x\<close>, \<open>star_y\<close>, \<open>star_dx\<close>, \<open>star_dy\<close> are \<open>x\<close>, \<open>y\<close>, \<open>dx\<close>, \<open>dy\<close>.
\<close>

record star =
  RA :: real
  DEC :: real
  dRA :: real
  dDEC :: real
  jmag :: real
  starT :: real
  star_x :: real
  star_y :: real
  star_dx :: real
  star_dy :: real

text \<open>The dictionary \<open>sweetSpot\<close>; the source sets \<open>x = 856\<close> and \<open>y = 107\<close>.\<close>

record sweetSpot =
  ss_x :: real
  ss_y :: real
  ss_RA :: real
  ss_DEC :: real
  ss_jmag :: real

text \<open>
  What \<open>readsav\<close> returns for \<open>modelsInfo.sav\<close>, and \<open>saveFiles\<close>: the per-temperature
  files, each read as its array \<open>modelo12\<close> of two planes (order 1 and order 2). The files
  themselves are not part of the repository, so their contents are parameters.
\<close>

record modelParam =
  models :: "array2 list"
  modelPadX :: int
  modelPadY :: int
  dimXmod :: int
  dimYmod :: int
  jhMod :: "real list"
  hkMod :: "real list"
  teffMod :: "real list"
  saveFiles :: "(array2 \<times> array2) list"

definition radeg :: real where
  "radeg = 180 / pi"

definition niriss_pixel_scale :: real where
  "niriss_pixel_scale = 65 / 1000"

definition dimY :: int where
  "dimY = 2048"

definition PAtab :: "int list" where
  "PAtab = map int [0..<360]"

definition nPA :: nat where
  "nPA = length PAtab"

text \<open>Lines 108-111: the pixel offset and the detector position of a star at angle \<open>APA\<close>.\<close>

definition project :: "sweetSpot \<Rightarrow> real \<Rightarrow> star \<Rightarrow> star" where
  "project ss APA s =
     (let ddx = (cos (pi / 2 + APA / radeg) * dRA s - sin (pi / 2 + APA / radeg) * dDEC s)
                  / niriss_pixel_scale;
          ddy = (sin (pi / 2 + APA / radeg) * dRA s + cos (pi / 2 + APA / radeg) * dDEC s)
                  / niriss_pixel_scale
      in s\<lparr>star_x := ddx + ss_x ss, star_y := ddy + ss_y ss, star_dx := ddx, star_dy := ddy\<rparr>)"

text \<open>Line 151: the direct-image field of view of the pick-off mirror.\<close>

definition in_FOV :: "star \<Rightarrow> bool" where
  "in_FOV s \<longleftrightarrow> star_x s \<ge> - 162 \<and> star_x s \<le> 2047 + 185
               \<and> star_y s \<ge> - 154 \<and> star_y s \<le> 2047 + 174"

text \<open>
  Lines 165-180: the window of the model array, and of the output frame, that a star at
  the rounded offset \<open>(intx, inty)\<close> covers. \<open>None\<close> is the two \<open>continue\<close> statements.
\<close>

record window =
  x0 :: int
  y0 :: int
  mx0 :: int
  mx1 :: int
  my0 :: int
  my1 :: int

definition overlap_window :: "modelParam \<Rightarrow> int \<Rightarrow> int \<Rightarrow> int \<Rightarrow> window option" where
  "overlap_window mp dimX intx inty =
     (let rx0 = modelPadX mp - intx; rx1 = modelPadX mp - intx + dimX;
          ry0 = modelPadY mp - inty; ry1 = modelPadY mp - inty + dimY
      in if rx0 > dimXmod mp \<or> ry0 > dimYmod mp then None
         else if rx1 < 0 \<or> ry1 < 0 then None
         else Some \<lparr>x0 = of_bool (rx0 < 0) * (- rx0),
                    y0 = of_bool (ry0 < 0) * (- ry0),
                    mx0 = rx0 * of_bool (rx0 \<ge> 0),
                    mx1 = (if rx1 > dimXmod mp then dimXmod mp else rx1),
                    my0 = ry0 * of_bool (ry0 \<ge> 0),
                    my1 = (if ry1 > dimYmod mp then dimYmod mp else ry1)\<rparr>)"

text \<open>
  The state of a run: the cube, and a record of every write to it, in order, each with
  its kind (\<open>=\<close> or \<open>+=\<close>), the plane it went to and the index \<open>kPA\<close> of the angle
  at which it was made. The record is not a variable of the source; it is what lets a
  property count the writes.
\<close>

datatype write_kind = Assigned | Accumulated

record sim_state =
  simuCube :: cube
  written :: "(write_kind \<times> nat \<times> nat) list"

text \<open>Lines 186, 187 and 190: one slice of the cube written from the same window of a model.\<close>

definition write_plane :: "bool \<Rightarrow> nat \<Rightarrow> nat \<Rightarrow> window \<Rightarrow> array2 \<Rightarrow> real \<Rightarrow> sim_state \<Rightarrow> py_error + sim_state" where
  "write_plane acc p kPA w src fluxscale st =
     bind_err
       (put_slice acc (simuCube st) p (y0 w) (y0 w + my1 w - my0 w) (x0 w) (x0 w + mx1 w - mx0 w)
          (slice2 src (my0 w) (my1 w) (mx0 w) (mx1 w) fluxscale))
       (\<lambda>c. Inr (st\<lparr>simuCube := c,
                     written := written st @ [(if acc then Accumulated else Assigned, p, kPA)]\<rparr>))"

text \<open>Lines 156-190: the body of the loop over the stars in the field, for one star.\<close>

definition star_step :: "modelParam \<Rightarrow> int \<Rightarrow> sweetSpot \<Rightarrow> nat \<Rightarrow> star \<Rightarrow> sim_state \<Rightarrow> py_error + sim_state" where
  "star_step mp dimX ss kPA s st =
     (let intx = py_round (star_dx s); inty = py_round (star_dy s)
      in case where_first (teffMod mp) (starT s) of
           None \<Rightarrow> Inl IndexError
         | Some k \<Rightarrow>
             (let fluxscale = 10 powr (- (4 / 10) * (jmag s - ss_jmag ss))
              in case overlap_window mp dimX intx inty of
                   None \<Rightarrow> Inr st
                 | Some w \<Rightarrow>
                     bind_err
                       (if intx = 0 \<and> inty = 0 \<and> kPA = 0
                        then (if length (saveFiles mp) \<le> k then Inl IndexError
                              else bind_err
                                     (write_plane False 0 kPA w (fst (saveFiles mp ! k)) fluxscale st)
                                     (write_plane False 1 kPA w (snd (saveFiles mp ! k)) fluxscale))
                        else Inr st)
                       (\<lambda>st'. if intx \<noteq> 0 \<or> inty \<noteq> 0
                              then (if length (models mp) \<le> k then Inl IndexError
                                    else write_plane True (kPA + 2) kPA w (models mp ! k) fluxscale st')
                              else Inr st')))"

text \<open>A \<open>for\<close> loop whose body can raise: the first exception ends it.\<close>

fun for_each :: "('a \<Rightarrow> 's \<Rightarrow> 'e + 's) \<Rightarrow> 'a list \<Rightarrow> 's \<Rightarrow> 'e + 's" where
  "for_each body [] st = Inr st"
| "for_each body (v # vs) st = bind_err (body v st) (for_each body vs)"

text \<open>Lines 105-190: the body of the loop over the position angles, for the angle of index \<open>kPA\<close>.\<close>

definition angle_step :: "modelParam \<Rightarrow> int \<Rightarrow> sweetSpot \<Rightarrow> star list \<Rightarrow> nat \<Rightarrow> sim_state \<Rightarrow> py_error + sim_state" where
  "angle_step mp dimX ss stars kPA st =
     (let APA = real_of_int (PAtab ! kPA);
          starsInFOV = filter in_FOV (map (project ss APA) stars)
      in for_each (star_step mp dimX ss kPA) starsInFOV st)"

text \<open>Line 104: \<open>for kPA in range(PAtab.size)\<close>.\<close>

definition sweep :: "modelParam \<Rightarrow> int \<Rightarrow> sweetSpot \<Rightarrow> star list \<Rightarrow> sim_state \<Rightarrow> py_error + sim_state" where
  "sweep mp dimX ss stars st = for_each (angle_step mp dimX ss stars) [0..<nPA] st"

text \<open>
  The catalogue columns the source reads from the query result \<open>info\<close> (the query itself
  is an external service), and the arrays of lines 24-30 derived from them.
\<close>

record catalog =
  cat_ra :: "real list"
  cat_dec :: "real list"
  j_m :: "real list"
  h_m :: "real list"
  k_m :: "real list"

record field =
  allRA :: "real list"
  allDEC :: "real list"
  Jmag :: "real list"
  Hmag :: "real list"
  Kmag :: "real list"
  J_Hobs :: "real list"
  H_Kobs :: "real list"

definition load_field :: "catalog \<Rightarrow> py_error + field" where
  "load_field info =
     bind_err (broadcast2 (-) (j_m info) (h_m info)) (\<lambda>jh.
     bind_err (broadcast2 (-) (h_m info) (k_m info)) (\<lambda>hk.
       Inr \<lparr>allRA = cat_ra info, allDEC = cat_dec info, Jmag = j_m info, Hmag = h_m info,
            Kmag = k_m info, J_Hobs = jh, H_Kobs = hk\<rparr>))"

text \<open>Lines 33-34: the catalogue entry nearest to the requested coordinates is the target.\<close>

definition target_index :: "real \<Rightarrow> real \<Rightarrow> field \<Rightarrow> py_error + nat" where
  "target_index targetRA targetDEC fld =
     bind_err
       (broadcast2 (\<lambda>ra dec. sqrt (((targetRA - ra) * cos targetDEC)\<^sup>2 + (targetDEC - dec)\<^sup>2))
          (allRA fld) (allDEC fld))
       argmin"

text \<open>
  Lines 38-47, taken when \<open>binComp\<close> is given: \<open>binComp = [deltaRA, deltaDEC, J, H, K]\<close>.
  Line 43 reads \<open>Hmag = np.append(Kmag, binComp[3])\<close>, and is modelled as it is written.
\<close>

definition add_companion :: "field \<Rightarrow> nat \<Rightarrow> real \<times> real \<times> real \<times> real \<times> real \<Rightarrow> py_error + field" where
  "add_companion fld targetIndex binComp =
     (case binComp of (bRA, bDEC, bJ, bH, bK) \<Rightarrow>
        bind_err (py_nth (allRA fld) targetIndex) (\<lambda>tRA.
        bind_err (py_nth (allDEC fld) targetIndex) (\<lambda>tDEC.
          let deg2rad = pi / 180;
              allRA' = allRA fld @ [tRA + bRA / 3600 / cos (tDEC * deg2rad)];
              allDEC' = allDEC fld @ [tDEC + bDEC / 3600];
              Jmag' = Jmag fld @ [bJ];
              Hmag' = Kmag fld @ [bH];
              Kmag' = Kmag fld @ [bK]
          in bind_err (broadcast2 (-) Jmag' Hmag') (\<lambda>jh.
             bind_err (broadcast2 (-) Hmag' Kmag') (\<lambda>hk.
               Inr \<lparr>allRA = allRA', allDEC = allDEC', Jmag = Jmag', Hmag = Hmag',
                    Kmag = Kmag', J_Hobs = jh, H_Kobs = hk\<rparr>)))))"

text \<open>
  Lines 69-71: the temperature of the model nearest in colour to one star. The arrays hold
  float64 values, and numpy rounds the result of every subtraction, product and sum of
  \<open>(J_Hobs[j]-jhMod)**2+(H_Kobs[j]-hkMod)**2\<close> to float64 (the power of two is computed as
  the product of the value with itself). The rounding is the parameter \<open>fl\<close>, so that what
  is proved of the assignment holds whatever a rounding does; \<open>np.argmin\<close> then compares the
  rounded sums exactly.
\<close>

definition color_separation :: "(real \<Rightarrow> real) \<Rightarrow> modelParam \<Rightarrow> real \<Rightarrow> real \<Rightarrow> py_error + real list" where
  "color_separation fl mp jh hk =
     broadcast2 (\<lambda>a b. fl (a + b))
       (map (\<lambda>m. fl (fl (jh - m) * fl (jh - m))) (jhMod mp))
       (map (\<lambda>m. fl (fl (hk - m) * fl (hk - m))) (hkMod mp))"


definition star_teff :: "(real \<Rightarrow> real) \<Rightarrow> modelParam \<Rightarrow> real \<Rightarrow> real \<Rightarrow> py_error + real" where
  "star_teff fl mp jh hk =
     bind_err (color_separation fl mp jh hk) (\<lambda>sep.
     bind_err (argmin sep) (\<lambda>min_separation_ind.
       py_nth (teffMod mp) min_separation_ind))"

text \<open>Lines 67-71: the loop over the \<open>nStars\<close> stars.\<close>

definition assign_teff :: "(real \<Rightarrow> real) \<Rightarrow> modelParam \<Rightarrow> field \<Rightarrow> py_error + real list" where
  "assign_teff fl mp fld =
     map_err (\<lambda>j. bind_err (py_nth (J_Hobs fld) j) (\<lambda>jh.
                   bind_err (py_nth (H_Kobs fld) j) (\<lambda>hk. star_teff fl mp jh hk)))
       [0..<length (allRA fld)]"

text \<open>
  Lines 75-85: the sweet spot and the structured array of stars. The fields \<open>x\<close>, \<open>y\<close>,
  \<open>dx\<close>, \<open>dy\<close> come from \<open>np.empty\<close> and are set at every angle before they are read; the
  model starts them at zero.
\<close>

definition make_star :: "sweetSpot \<Rightarrow> field \<Rightarrow> real list \<Rightarrow> nat \<Rightarrow> py_error + star" where
  "make_star ss fld starsT j =
     bind_err (py_nth (allRA fld) j) (\<lambda>ra.
     bind_err (py_nth (allDEC fld) j) (\<lambda>dec.
     bind_err (py_nth (Jmag fld) j) (\<lambda>jm.
     bind_err (py_nth starsT j) (\<lambda>t.
       Inr \<lparr>RA = ra, DEC = dec,
            dRA = (ra - ss_RA ss) * cos (ss_DEC ss / radeg) * 3600,
            dDEC = (dec - ss_DEC ss) * 3600,
            jmag = jm, starT = t, star_x = 0, star_y = 0, star_dx = 0, star_dy = 0\<rparr>))))"

text \<open>
  The function \<open>sossFieldSim(ra, dec, binComp, dimX)\<close>. The coordinates are taken after
  their conversion to degrees, the catalogue as the query returned it, and \<open>binComp\<close> is
  \<open>None\<close> for the default \<open>''\<close>; \<open>fl\<close> is the rounding of the colour arithmetic. The
  source returns the cube of the final state.
\<close>

definition sossFieldSim :: "(real \<Rightarrow> real) \<Rightarrow> modelParam \<Rightarrow> catalog \<Rightarrow> real \<Rightarrow> real \<Rightarrow> (real \<times> real \<times> real \<times> real \<times> real) option \<Rightarrow> int \<Rightarrow> py_error + sim_state" where
  "sossFieldSim fl mp info targetRA targetDEC binComp dimX =
     bind_err (load_field info) (\<lambda>fld0.
     bind_err (target_index targetRA targetDEC fld0) (\<lambda>targetIndex.
     bind_err (case binComp of None \<Rightarrow> Inr fld0 | Some bc \<Rightarrow> add_companion fld0 targetIndex bc) (\<lambda>fld.
     bind_err (assign_teff fl mp fld) (\<lambda>starsT.
     bind_err (py_nth (allRA fld) targetIndex) (\<lambda>tRA.
     bind_err (py_nth (allDEC fld) targetIndex) (\<lambda>tDEC.
     bind_err (py_nth (Jmag fld) targetIndex) (\<lambda>tJ.
       let ss = \<lparr>ss_x = 856, ss_y = 107, ss_RA = tRA, ss_DEC = tDEC, ss_jmag = tJ\<rparr>
       in bind_err (map_err (make_star ss fld starsT) [0..<length (allRA fld)]) (\<lambda>stars.
            if dimX < 0 then Inl ValueError
            else sweep mp dimX ss stars
                   \<lparr>simuCube = zeros (nPA + 2) (nat dimY) (nat dimX), written = []\<rparr>))))))))"

text \<open>
  The writes one pass of the loop body (lines 164-190) makes for a star, as the record
  \<open>written\<close> lists them: nothing when the window is rejected, the two assignments to the
  planes 0 and 1 under the guard of line 183, the accumulation into plane \<open>kPA + 2\<close> under
  the guard of line 189. \<open>angle_writes\<close> are those of a whole angle. Both only serve to state
  what the loops record.
\<close>

definition star_writes :: "modelParam \<Rightarrow> int \<Rightarrow> nat \<Rightarrow> star \<Rightarrow> (write_kind \<times> nat \<times> nat) list" where
  "star_writes mp dimX kPA s =
     (let intx = py_round (star_dx s); inty = py_round (star_dy s)
      in if overlap_window mp dimX intx inty = None then []
         else (if intx = 0 \<and> inty = 0 \<and> kPA = 0 then [(Assigned, 0, kPA), (Assigned, 1, kPA)] else [])
              @ (if intx \<noteq> 0 \<or> inty \<noteq> 0 then [(Accumulated, kPA + 2, kPA)] else []))"

definition angle_writes :: "modelParam \<Rightarrow> int \<Rightarrow> sweetSpot \<Rightarrow> star list \<Rightarrow> nat \<Rightarrow> (write_kind \<times> nat \<times> nat) list" where
  "angle_writes mp dimX ss stars kPA =
     concat (map (star_writes mp dimX kPA)
               (filter in_FOV (map (project ss (real_of_int (PAtab ! kPA))) stars)))"

text \<open>
  Concrete inputs on which the properties below are evaluated: one model of
  \<open>2068 \<times> 30\<close> pixels padded by ten pixels, a catalogue of one star, an output frame
  eight pixels wide.
\<close>

definition ex_model :: array2 where
  "ex_model = \<lparr>n_rows = 2068, n_cols = 30, cell = (\<lambda>i j. 1)\<rparr>"

definition ex_mp :: modelParam where
  "ex_mp = \<lparr>models = [ex_model], modelPadX = 10, modelPadY = 10, dimXmod = 30, dimYmod = 2068,
            jhMod = [1 / 2], hkMod = [1 / 5], teffMod = [3000], saveFiles = [(ex_model, ex_model)]\<rparr>"

definition ex_ss :: sweetSpot where
  "ex_ss = \<lparr>ss_x = 856, ss_y = 107, ss_RA = 10, ss_DEC = 20, ss_jmag = 10\<rparr>"

definition ex_star :: "real \<Rightarrow> real \<Rightarrow> star" where
  "ex_star a b = \<lparr>RA = 10, DEC = 20, dRA = a, dDEC = b, jmag = 10, starT = 3000,
                  star_x = 0, star_y = 0, star_dx = 0, star_dy = 0\<rparr>"

definition ex_companion :: star where
  "ex_companion = (ex_star 0 0)\<lparr>jmag := 25 / 2\<rparr>"

definition ex_state :: sim_state where
  "ex_state = \<lparr>simuCube = zeros (nPA + 2) (nat dimY) 8, written = []\<rparr>"



definition ex_field :: field where
  "ex_field = \<lparr>allRA = [10], allDEC = [20], Jmag = [10], Hmag = [19 / 2], Kmag = [9],
               J_Hobs = [1 / 2], H_Kobs = [1 / 2]\<rparr>"

definition ex_info :: catalog where
  "ex_info = \<lparr>cat_ra = [10], cat_dec = [20], j_m = [10], h_m = [19 / 2], k_m = [9]\<rparr>"

text \<open>
  The example star as the projection leaves it at a pixel offset \<open>(a, b)\<close>.
\<close>

definition ex_at :: "real \<Rightarrow> real \<Rightarrow> star" where
  "ex_at a b = (ex_star 0 0)\<lparr>star_dx := a, star_dy := b, star_x := a + 856, star_y := b + 107\<rparr>"

section \<open>ModelGrid\<close>

text \<open>
  One row of the table \<open>self.data\<close> (the columns of the header that vary from file to
  file other than these are left out), the three extensions of a model file that \<open>get\<close>
  reads, and the array \<open>self.array\<close> of shape \<open>(Teff, logg, FeH, mu, wavelength)\<close> that
  \<open>load_flux\<close> fills.
\<close>

record grid_row =
  Teff :: real
  logg :: real
  FeH :: real
  filename :: string

record fits_file =
  raw_flux :: array2
  mu_ext :: "real list"
  wave_ext :: "real list"

record flux_array =
  fa_rows :: nat
  fa_cols :: nat
  fa_cell :: "nat \<times> nat \<times> nat \<Rightarrow> nat \<Rightarrow> nat \<Rightarrow> real"

text \<open>
  The attributes of a \<open>ModelGrid\<close>. \<open>array\<close> is \<open>None\<close> while the attribute still holds
  the string \<open>''\<close>, \<open>CRVAL1\<close> is \<open>None\<close> for the header value \<open>'-'\<close>, and \<open>wavelength\<close> is
  \<open>None\<close> until \<open>load_flux\<close> sets it.
\<close>

record ModelGrid =
  path :: string
  wave_rng :: "real \<times> real"
  n_bins :: real
  array :: "flux_array option"
  wavelength :: "real list option"
  CRVAL1 :: "real option"
  CDELT1 :: real
  data :: "grid_row list"
  Teff_rng :: "real \<times> real"
  logg_rng :: "real \<times> real"
  FeH_rng :: "real \<times> real"
  Teff_vals :: "real list"
  logg_vals :: "real list"
  FeH_vals :: "real list"

text \<open>
  The dictionary \<open>get\<close> returns for a grid point, and the state the methods act on: the
  grid, and the model files read so far (reading a file is the only effect outside the
  object).
\<close>

record spec_dict =
  sd_row :: grid_row
  sd_wave :: "real list"
  sd_flux :: array2
  sd_mu :: "real list"

record world =
  grid :: ModelGrid
  files_read :: "string list"

text \<open>
  Lines 426-439 of \<open>get\<close>: the range test, and the test for a true grid point.
\<close>

definition in_grid :: "ModelGrid \<Rightarrow> real \<Rightarrow> real \<Rightarrow> real \<Rightarrow> bool" where
  "in_grid G T g m \<longleftrightarrow>
     T \<ge> fst (Teff_rng G) \<and> T \<le> snd (Teff_rng G)
     \<and> g \<ge> fst (logg_rng G) \<and> g \<le> snd (logg_rng G)
     \<and> m \<ge> fst (FeH_rng G) \<and> m \<le> snd (FeH_rng G)"

definition matching_rows :: "ModelGrid \<Rightarrow> real \<Rightarrow> real \<Rightarrow> real \<Rightarrow> grid_row list" where
  "matching_rows G T g m = filter (\<lambda>r. Teff r = T \<and> logg r = g \<and> FeH r = m) (data G)"

definition on_grid :: "ModelGrid \<Rightarrow> real \<Rightarrow> real \<Rightarrow> real \<Rightarrow> bool" where
  "on_grid G T g m \<longleftrightarrow> matching_rows G T g m \<noteq> []"

text \<open>
  Lines 445-484 of \<open>get\<close>: the row of the grid point (the unpacking \<open>row, = ...\<close> raises
  ValueError unless exactly one row matches), its file, the wavelength axis in microns, and
  the trim to \<open>wave_rng\<close>. \<open>fs\<close> is the directory of model files.
\<close>

definition get_on_grid :: "(string \<Rightarrow> fits_file option) \<Rightarrow> real \<Rightarrow> real \<Rightarrow> real \<Rightarrow> world \<Rightarrow> (py_error + spec_dict option) \<times> world" where
  "get_on_grid fs T g m w =
     (let G = grid w in
      case matching_rows G T g m of
        [row] \<Rightarrow>
          (let filepath = path G @ filename row in
           case fs filepath of
             None \<Rightarrow> (Inl IOError, w)
           | Some f \<Rightarrow>
               (let w' = w\<lparr>files_read := files_read w @ [filepath]\<rparr>;
                    raw_wave0 = (case CRVAL1 G of
                                   None \<Rightarrow> Inr (wave_ext f)
                                 | Some c \<Rightarrow>
                                     if n_rows (raw_flux f) = 0 then Inl IndexError
                                     else Inr (map (\<lambda>i. c + CDELT1 G * real i) [0..<n_cols (raw_flux f)]))
                in case raw_wave0 of
                     Inl e \<Rightarrow> (Inl e, w')
                   | Inr rw0 \<Rightarrow>
                       (let raw_wave = map (\<lambda>v. v * (1 / 10000)) rw0;
                            idx = filter (\<lambda>i. raw_wave ! i \<ge> fst (wave_rng G) \<and> raw_wave ! i \<le> snd (wave_rng G))
                                    [0..<length raw_wave]
                        in if \<not> list_all (\<lambda>i. i < n_cols (raw_flux f)) idx then (Inl IndexError, w')
                           else (Inr (Some \<lparr>sd_row = row,
                                            sd_wave = map (\<lambda>i. raw_wave ! i) idx,
                                            sd_flux = \<lparr>n_rows = n_rows (raw_flux f), n_cols = length idx,
                                                       cell = (\<lambda>i j. cell (raw_flux f) i (idx ! j))\<rparr>,
                                            sd_mu = mu_ext f\<rparr>), w'))))
      | _ \<Rightarrow> (Inl ValueError, w))"

text \<open>
  The three nested loops of \<open>load_flux\<close> with their \<open>enumerate\<close> indices, and the body of
  its \<open>try\<close> block after \<open>get\<close> has returned.
\<close>

definition grid_triples :: "ModelGrid \<Rightarrow> ((nat \<times> nat \<times> nat) \<times> (real \<times> real \<times> real)) list" where
  "grid_triples G =
     concat (map (\<lambda>(nt, teff).
       concat (map (\<lambda>(ng, lg).
         map (\<lambda>(nm, feh). ((nt, ng, nm), (teff, lg, feh))) (enumerate 0 (FeH_vals G)))
         (enumerate 0 (logg_vals G))))
       (enumerate 0 (Teff_vals G)))"

definition store_flux :: "nat \<times> nat \<times> nat \<Rightarrow> spec_dict \<Rightarrow> world \<Rightarrow> world" where
  "store_flux ix sd w =
     (let G = grid w;
          flux = sd_flux sd;
          a = (case array G of
                 None \<Rightarrow> \<lparr>fa_rows = n_rows flux, fa_cols = n_cols flux, fa_cell = (\<lambda>k i j. 0)\<rparr>
               | Some a \<Rightarrow> a)
      in if broadcasts flux (fa_rows a) (fa_cols a)
         then w\<lparr>grid := G\<lparr>array := Some (a\<lparr>fa_cell := (fa_cell a)(ix := bcell flux)\<rparr>),
                            wavelength := Some (sd_wave sd)\<rparr>\<rparr>
         else w\<lparr>grid := G\<lparr>array := Some a\<rparr>\<rparr>)"

text \<open>
  \<open>get\<close>, \<open>grid_interp\<close> and \<open>load_flux\<close> call one another. The first argument is the
  number of calls the Python stack still admits; at zero a call raises RecursionError.
  \<open>grid_interp\<close> reads \<open>new_flux\<close> on line 542 before the function assigns it on line 546,
  which raises UnboundLocalError; \<open>self.array.copy()\<close> on a string raises AttributeError.
  The bare \<open>except: pass\<close> of \<open>load_flux\<close> drops every exception of its loop body and keeps
  the changes made so far.
\<close>

fun get :: "nat \<Rightarrow> (string \<Rightarrow> fits_file option) \<Rightarrow> real \<Rightarrow> real \<Rightarrow> real \<Rightarrow> world \<Rightarrow> (py_error + spec_dict option) \<times> world"
  and grid_interp :: "nat \<Rightarrow> (string \<Rightarrow> fits_file option) \<Rightarrow> real \<Rightarrow> real \<Rightarrow> real \<Rightarrow> world \<Rightarrow> (py_error + spec_dict option) \<times> world"
  and load_flux :: "nat \<Rightarrow> (string \<Rightarrow> fits_file option) \<Rightarrow> world \<Rightarrow> (py_error + unit) \<times> world"
where
  "get 0 fs T g m w = (Inl RecursionError, w)"
| "get (Suc d) fs T g m w =
     (if in_grid (grid w) T g m
      then (if on_grid (grid w) T g m then get_on_grid fs T g m w
            else grid_interp d fs T g m w)
      else (Inr None, w))"
| "grid_interp 0 fs T g m w = (Inl RecursionError, w)"
| "grid_interp (Suc d) fs T g m w =
     (case (if array (grid w) = None then load_flux d fs w else (Inr (), w)) of
        (Inl e, w1) \<Rightarrow> (Inl e, w1)
      | (Inr u, w1) \<Rightarrow>
          (case array (grid w1) of
             None \<Rightarrow> (Inl AttributeError, w1)
           | Some flux \<Rightarrow> (Inl UnboundLocalError, w1)))"
| "load_flux 0 fs w = (Inl RecursionError, w)"
| "load_flux (Suc d) fs w =
     (case array (grid w) of
        Some a \<Rightarrow> (Inr (), w)
      | None \<Rightarrow>
          (Inr (), fold (\<lambda>(ix, (teff, lg, feh)) w0.
                     case get d fs teff lg feh w0 of
                       (Inr (Some sd), w1) \<Rightarrow> store_flux ix sd w1
                     | (r, w1) \<Rightarrow> w1)
                   (grid_triples (grid w)) w))"

text \<open>
  \<open>min\<close> and \<open>max\<close> of a column (ValueError when it is empty) and \<open>np.unique\<close>.
\<close>

fun py_min :: "real list \<Rightarrow> py_error + real" where
  "py_min [] = Inl ValueError"
| "py_min (v # vs) = Inr (fold min vs v)"

fun py_max :: "real list \<Rightarrow> py_error + real" where
  "py_max [] = Inl ValueError"
| "py_max (v # vs) = Inr (fold max vs v)"

definition unique :: "real list \<Rightarrow> real list" where
  "unique vs = sort (remdups vs)"

text \<open>
  Lines 665-671 of \<open>customize\<close>: the ranges and value lists recomputed from the table.
\<close>

definition update_attributes :: "ModelGrid \<Rightarrow> py_error + ModelGrid" where
  "update_attributes G =
     bind_err (py_min (map Teff (data G))) (\<lambda>t0.
     bind_err (py_max (map Teff (data G))) (\<lambda>t1.
     bind_err (py_min (map logg (data G))) (\<lambda>g0.
     bind_err (py_max (map logg (data G))) (\<lambda>g1.
     bind_err (py_min (map FeH (data G))) (\<lambda>m0.
     bind_err (py_max (map FeH (data G))) (\<lambda>m1.
       Inr (G\<lparr>Teff_rng := (t0, t1), logg_rng := (g0, g1), FeH_rng := (m0, m1),
               Teff_vals := unique (map Teff (data G)),
               logg_vals := unique (map logg (data G)),
               FeH_vals := unique (map FeH (data G))\<rparr>)))))))"

text \<open>
  \<open>customize\<close>, lines 616-674. \<open>n_bins'\<close> is \<open>None\<close> for the default \<open>''\<close>; a zero is as
  false as the empty string in \<open>n_bins or self.n_bins\<close>.
\<close>

definition customize :: "ModelGrid \<Rightarrow> real \<times> real \<Rightarrow> real \<times> real \<Rightarrow> real \<times> real \<Rightarrow> real \<times> real \<Rightarrow> real option \<Rightarrow> py_error + ModelGrid" where
  "customize G Teff_rng' logg_rng' FeH_rng' wave_rng' n_bins' =
     (let grid_copy = data G;
          G1 = G\<lparr>wave_rng := wave_rng',
                 n_bins := (case n_bins' of None \<Rightarrow> n_bins G
                            | Some n \<Rightarrow> if n = 0 then n_bins G else n)\<rparr>;
          G2 = G1\<lparr>data := filter (\<lambda>r. Teff r \<ge> fst Teff_rng' \<and> Teff r \<le> snd Teff_rng'
                                    \<and> logg r \<ge> fst logg_rng' \<and> logg r \<le> snd logg_rng'
                                    \<and> FeH r \<ge> fst FeH_rng' \<and> FeH r \<le> snd FeH_rng') grid_copy\<rparr>;
          G3 = (if length (data G2) = 0 then G2\<lparr>data := grid_copy\<rparr> else G2)
      in update_attributes G3)"

text \<open>
  A grid of one model, its file, and a state in which nothing has been read.
\<close>

definition ex_row :: grid_row where
  "ex_row = \<lparr>Teff = 3000, logg = 5, FeH = 0, filename = ''lte03000.fits''\<rparr>"

definition ex_grid :: ModelGrid where
  "ex_grid = \<lparr>path = ''models/'', wave_rng = (0, 40), n_bins = 10000000000, array = None,
              wavelength = None, CRVAL1 = None, CDELT1 = 0, data = [ex_row],
              Teff_rng = (3000, 3000), logg_rng = (5, 5), FeH_rng = (0, 0),
              Teff_vals = [3000], logg_vals = [5], FeH_vals = [0]\<rparr>"

definition ex_fs :: "string \<Rightarrow> fits_file option" where
  "ex_fs p = (if p = ''models/lte03000.fits''
              then Some \<lparr>raw_flux = \<lparr>n_rows = 1, n_cols = 2, cell = (\<lambda>i j. 1)\<rparr>,
                         mu_ext = [1], wave_ext = [10000, 20000]\<rparr>
              else None)"

definition ex_world :: world where
  "ex_world = \<lparr>grid = ex_grid, files_read = []\<rparr>"

section \<open>Properties of the projection\<close>

text \<open>
  C5. At every position angle, the projection formula applied to a star at zero relative
  offset (\<open>dRA = 0\<close>, \<open>dDEC = 0\<close>: the target) gives the pixel offset \<open>(0, 0)\<close> and the
  position of the sweet spot, which the source sets to \<open>(856, 107)\<close>.
\<close>

theorem project_target_is_sweet_spot:
  "star_dx (project ss APA (s\<lparr>dRA := 0, dDEC := 0\<rparr>)) = 0
   \<and> star_dy (project ss APA (s\<lparr>dRA := 0, dDEC := 0\<rparr>)) = 0
   \<and> star_x (project (ss\<lparr>ss_x := 856, ss_y := 107\<rparr>) APA (s\<lparr>dRA := 0, dDEC := 0\<rparr>)) = 856
   \<and> star_y (project (ss\<lparr>ss_x := 856, ss_y := 107\<rparr>) APA (s\<lparr>dRA := 0, dDEC := 0\<rparr>)) = 107"
  by (simp add: project_def)

section \<open>The record of writes and the reference planes\<close>

text \<open>
  A write to one plane leaves every other plane as it was, and is recorded.
\<close>

lemma put_slice_other_plane:
  "put_slice acc c p a b cc d v = Inr c' \<Longrightarrow> q \<noteq> p \<Longrightarrow> voxel c' q = voxel c q"
  by (auto simp: put_slice_def Let_def fun_eq_iff split: if_splits)

lemma write_plane_other_plane:
  "write_plane acc p kPA w src f st = Inr st' \<Longrightarrow> q \<noteq> p \<Longrightarrow> voxel (simuCube st') q = voxel (simuCube st) q"
  by (auto simp: write_plane_def bind_err_def split: sum.splits dest: put_slice_other_plane)

lemma write_plane_written:
  "write_plane acc p kPA w src f st = Inr st' \<Longrightarrow>
     written st' = written st @ [(if acc then Accumulated else Assigned, p, kPA)]"
  by (auto simp: write_plane_def bind_err_def split: sum.splits)

text \<open>
  The three ways a pass of the loop body ends without an exception.
\<close>

lemma star_step_cases:
  assumes "star_step mp dimX ss kPA s st = Inr st'"
  obtains (unchanged) "st' = st"
  | (target) w a1 a2 f st1 where "py_round (star_dx s) = 0" "py_round (star_dy s) = 0" "kPA = 0"
      "write_plane False 0 kPA w a1 f st = Inr st1" "write_plane False 1 kPA w a2 f st1 = Inr st'"
  | (field) w a f where "py_round (star_dx s) \<noteq> 0 \<or> py_round (star_dy s) \<noteq> 0"
      "write_plane True (kPA + 2) kPA w a f st = Inr st'"
  using assms
  by (auto simp: star_step_def Let_def bind_err_def split: option.splits sum.splits if_splits)

lemma star_step_written:
  assumes "star_step mp dimX ss kPA s st = Inr st'"
  shows "written st' = written st @ star_writes mp dimX kPA s"
  using assms
  by (auto simp: star_step_def star_writes_def Let_def bind_err_def
           split: option.splits sum.splits if_splits dest!: write_plane_written)

lemma star_step_ref_planes:
  assumes "star_step mp dimX ss kPA s st = Inr st'" and "kPA \<noteq> 0" and "p < 2"
  shows "voxel (simuCube st') p = voxel (simuCube st) p"
  using assms(1)
proof (cases rule: star_step_cases)
  case unchanged
  then show ?thesis by simp
next
  case (target w a1 a2 f st1)
  with assms(2) show ?thesis by simp
next
  case (field w a f)
  show ?thesis using field(2) by (rule write_plane_other_plane) (use assms(3) in simp)
qed

text \<open>
  The loops over the stars and over the angles: what they record, and that no angle after the
  first touches the planes 0 and 1.
\<close>

lemma for_each_Inr_Cons:
  assumes "for_each body (v # vs) st = Inr st'"
  obtains st1 where "body v st = Inr st1" and "for_each body vs st1 = Inr st'"
  using assms by (auto simp: bind_err_def split: sum.splits)

lemma stars_loop_written:
  "for_each (star_step mp dimX ss kPA) sts st = Inr st' \<Longrightarrow>
     written st' = written st @ concat (map (star_writes mp dimX kPA) sts)"
proof (induction sts arbitrary: st)
  case Nil
  then show ?case by simp
next
  case (Cons s sts)
  from Cons.prems obtain st1 where 1: "star_step mp dimX ss kPA s st = Inr st1"
    and 2: "for_each (star_step mp dimX ss kPA) sts st1 = Inr st'"
    by (rule for_each_Inr_Cons)
  show ?case using star_step_written [OF 1] Cons.IH [OF 2] by simp
qed

lemma stars_loop_ref_planes:
  "for_each (star_step mp dimX ss kPA) sts st = Inr st' \<Longrightarrow> kPA \<noteq> 0 \<Longrightarrow> p < 2 \<Longrightarrow>
     voxel (simuCube st') p = voxel (simuCube st) p"
proof (induction sts arbitrary: st)
  case Nil
  then show ?case by simp
next
  case (Cons s sts)
  from Cons.prems(1) obtain st1 where 1: "star_step mp dimX ss kPA s st = Inr st1"
    and 2: "for_each (star_step mp dimX ss kPA) sts st1 = Inr st'"
    by (rule for_each_Inr_Cons)
  show ?case
    using star_step_ref_planes [OF 1 Cons.prems(2,3)] Cons.IH [OF 2 Cons.prems(2,3)] by simp
qed

lemma angle_step_written:
  "angle_step mp dimX ss stars kPA st = Inr st' \<Longrightarrow>
     written st' = written st @ angle_writes mp dimX ss stars kPA"
  by (simp add: angle_step_def angle_writes_def stars_loop_written)

lemma angle_step_ref_planes:
  "angle_step mp dimX ss stars kPA st = Inr st' \<Longrightarrow> kPA \<noteq> 0 \<Longrightarrow> p < 2 \<Longrightarrow>
     voxel (simuCube st') p = voxel (simuCube st) p"
  by (simp add: angle_step_def stars_loop_ref_planes)

lemma angles_loop_written:
  "for_each (angle_step mp dimX ss stars) ks st = Inr st' \<Longrightarrow>
     written st' = written st @ concat (map (angle_writes mp dimX ss stars) ks)"
proof (induction ks arbitrary: st)
  case Nil
  then show ?case by simp
next
  case (Cons k ks)
  from Cons.prems obtain st1 where 1: "angle_step mp dimX ss stars k st = Inr st1"
    and 2: "for_each (angle_step mp dimX ss stars) ks st1 = Inr st'"
    by (rule for_each_Inr_Cons)
  show ?case using angle_step_written [OF 1] Cons.IH [OF 2] by simp
qed

lemma angles_loop_ref_planes:
  "for_each (angle_step mp dimX ss stars) ks st = Inr st' \<Longrightarrow> 0 \<notin> set ks \<Longrightarrow> p < 2 \<Longrightarrow>
     voxel (simuCube st') p = voxel (simuCube st) p"
proof (induction ks arbitrary: st)
  case Nil
  then show ?case by simp
next
  case (Cons k ks)
  from Cons.prems(1) obtain st1 where 1: "angle_step mp dimX ss stars k st = Inr st1"
    and 2: "for_each (angle_step mp dimX ss stars) ks st1 = Inr st'"
    by (rule for_each_Inr_Cons)
  have "k \<noteq> 0" and "0 \<notin> set ks" using Cons.prems(2) by auto
  then show ?case
    using angle_step_ref_planes [OF 1 _ Cons.prems(3)] Cons.IH [OF 2 _ Cons.prems(3)] by simp
qed

text \<open>
  The kinds of writes, and how many of them are assignments to a reference plane.
\<close>

lemma star_writes_kinds:
  "e \<in> set (star_writes mp dimX kPA s) \<Longrightarrow>
     e = (Assigned, 0, 0) \<or> e = (Assigned, 1, 0) \<or> e = (Accumulated, kPA + 2, kPA)"
  by (auto simp: star_writes_def Let_def split: if_splits)

lemma angle_writes_kinds:
  "e \<in> set (angle_writes mp dimX ss stars kPA) \<Longrightarrow>
     e = (Assigned, 0, 0) \<or> e = (Assigned, 1, 0) \<or> e = (Accumulated, kPA + 2, kPA)"
  by (auto simp: angle_writes_def dest: star_writes_kinds)

lemma count_list_concat_map:
  "count_list (concat (map f vs)) e = sum_list (map (\<lambda>v. count_list (f v) e) vs)"
  by (induction vs) simp_all

lemma length_filter_sum_list:
  "length (filter P vs) = sum_list (map (\<lambda>v. if P v then 1 else 0) vs)"
  by (induction vs) simp_all

lemma star_writes_count_ref:
  "p < 2 \<Longrightarrow> count_list (star_writes mp dimX kPA s) (Assigned, p, 0) =
     (if kPA = 0 \<and> py_round (star_dx s) = 0 \<and> py_round (star_dy s) = 0
         \<and> overlap_window mp dimX 0 0 \<noteq> None then 1 else 0)"
  by (cases "p = 0") (auto simp: star_writes_def Let_def)

lemma angle_writes_count_ref:
  "p < 2 \<Longrightarrow> count_list (angle_writes mp dimX ss stars kPA) (Assigned, p, 0) =
     (if kPA = 0
      then length (filter (\<lambda>s. py_round (star_dx s) = 0 \<and> py_round (star_dy s) = 0
                              \<and> overlap_window mp dimX 0 0 \<noteq> None)
                     (filter in_FOV (map (project ss (real_of_int (PAtab ! kPA))) stars)))
      else 0)"
  unfolding angle_writes_def count_list_concat_map length_filter_sum_list
  by (simp add: star_writes_count_ref cong: map_cong)

lemma later_angles_count_ref:
  "p < 2 \<Longrightarrow> 0 \<notin> set ks \<Longrightarrow>
     count_list (concat (map (angle_writes mp dimX ss stars) ks)) (Assigned, p, 0) = 0"
  by (induction ks) (auto simp: angle_writes_count_ref)

lemma PAtab_0: "PAtab ! 0 = 0"
  by (simp add: PAtab_def)

lemma nPA_eq: "nPA = 360"
  by (simp add: nPA_def PAtab_def)

lemma angles_split: "[0..<nPA] = 0 # [1..<nPA]"
  using upt_rec [of 0 nPA] by (simp only: nPA_eq One_nat_def) simp

lemma angles_later: "0 \<notin> set [1..<nPA]"
  by simp

text \<open>
  A call of \<open>sossFieldSim\<close> that returns has run the sweep, from a cube of zeros with
  nothing written, on the stars it built around the sweet spot \<open>(856, 107)\<close>.
\<close>

lemma sossFieldSim_runs_sweep:
  assumes "sossFieldSim fl mp info targetRA targetDEC binComp dimX = Inr st'"
  shows "\<exists>ss stars. ss_x ss = 856 \<and> ss_y ss = 107 \<and> 0 \<le> dimX
           \<and> sweep mp dimX ss stars
                \<lparr>simuCube = zeros (nPA + 2) (nat dimY) (nat dimX), written = []\<rparr> = Inr st'"
proof -
  from assms obtain fld tj stars where
    "sweep mp dimX \<lparr>ss_x = 856, ss_y = 107, ss_RA = fst fld, ss_DEC = snd fld, ss_jmag = tj\<rparr> stars
       \<lparr>simuCube = zeros (nPA + 2) (nat dimY) (nat dimX), written = []\<rparr> = Inr st'" and "0 \<le> dimX"
    by (auto simp: sossFieldSim_def bind_err_def Let_def split: sum.splits if_splits)
  then show ?thesis
    by (intro exI [of _ "\<lparr>ss_x = 856, ss_y = 107, ss_RA = fst fld, ss_DEC = snd fld, ss_jmag = tj\<rparr>"]
          exI [of _ stars]) simp
qed

text \<open>
  What a sweep writes, whatever the field. In a run that starts with nothing written, every
  write is an assignment to plane 0 or 1 made at the first angle, or an accumulation into
  plane \<open>kPA + 2\<close> made at angle \<open>kPA\<close>; planes 0 and 1 are each assigned once for every
  star that is in the field at the first angle with rounded offset \<open>(0, 0)\<close> and whose
  window is not rejected; and the angles after the first leave planes 0 and 1 as the first
  angle left them.
\<close>

theorem reference_planes_written_at_first_angle_only:
  assumes run: "sweep mp dimX ss stars st = Inr st'" and fresh: "written st = []"
  shows "(\<forall>e \<in> set (written st').
            e = (Assigned, 0, 0) \<or> e = (Assigned, 1, 0)
            \<or> (\<exists>kPA < nPA. e = (Accumulated, kPA + 2, kPA)))
       \<and> count_list (written st') (Assigned, 0, 0)
           = length (filter (\<lambda>s. py_round (star_dx s) = 0 \<and> py_round (star_dy s) = 0
                                  \<and> overlap_window mp dimX 0 0 \<noteq> None)
                       (filter in_FOV (map (project ss 0) stars)))
       \<and> count_list (written st') (Assigned, 1, 0) = count_list (written st') (Assigned, 0, 0)
       \<and> (\<exists>st0. angle_step mp dimX ss stars 0 st = Inr st0
                \<and> voxel (simuCube st') 0 = voxel (simuCube st0) 0
                \<and> voxel (simuCube st') 1 = voxel (simuCube st0) 1)"
proof -
  have log: "written st' = concat (map (angle_writes mp dimX ss stars) [0..<nPA])"
    using angles_loop_written [of mp dimX ss stars "[0..<nPA]" st st'] run fresh
    by (simp add: sweep_def)
  have kinds: "\<forall>e \<in> set (written st').
            e = (Assigned, 0, 0) \<or> e = (Assigned, 1, 0)
            \<or> (\<exists>kPA < nPA. e = (Accumulated, kPA + 2, kPA))"
    unfolding log by (auto dest: angle_writes_kinds)
  have cnt: "count_list (written st') (Assigned, p, 0)
           = length (filter (\<lambda>s. py_round (star_dx s) = 0 \<and> py_round (star_dy s) = 0
                                  \<and> overlap_window mp dimX 0 0 \<noteq> None)
                       (filter in_FOV (map (project ss 0) stars)))" if "p < 2" for p
    unfolding log angles_split
    using that by (simp add: angle_writes_count_ref later_angles_count_ref angles_later PAtab_0)
  from run obtain st0 where a0: "angle_step mp dimX ss stars 0 st = Inr st0"
    and rest: "for_each (angle_step mp dimX ss stars) [1..<nPA] st0 = Inr st'"
    unfolding sweep_def angles_split by (rule for_each_Inr_Cons)
  have planes: "voxel (simuCube st') 0 = voxel (simuCube st0) 0"
    "voxel (simuCube st') 1 = voxel (simuCube st0) 1"
    using angles_loop_ref_planes [OF rest angles_later] by simp_all
  show ?thesis
    using kinds cnt [of 0] cnt [of 1] a0 planes by simp
qed

text \<open>
  A star at zero relative offset is projected to the offset \<open>(0, 0)\<close> at every angle, and no
  angle but the first writes anything for it: a field of such stars is decided by the first
  angle alone.
\<close>

lemma for_each_skip:
  "(\<And>v st. v \<in> set vs \<Longrightarrow> body v st = Inr st) \<Longrightarrow> for_each body vs st = Inr st"
  by (induction vs arbitrary: st) (simp_all add: bind_err_def)

lemma py_round_0: "py_round 0 = 0"
  by (simp add: py_round_def)

lemma project_zero_offset:
  assumes "dRA s = 0" and "dDEC s = 0"
  shows "star_dx (project ss APA s) = 0" and "star_dy (project ss APA s) = 0"
    and "starT (project ss APA s) = starT s"
  using assms by (simp_all add: project_def)

lemma star_step_later_zero:
  assumes "kPA \<noteq> 0" and "star_dx s = 0" and "star_dy s = 0"
    and "where_first (teffMod mp) (starT s) \<noteq> None"
  shows "star_step mp dimX ss kPA s st = Inr st"
  using assms by (auto simp: star_step_def py_round_0 bind_err_def Let_def split: option.splits)

lemma angle_step_later_zero:
  assumes "kPA \<noteq> 0"
    and "\<And>s. s \<in> set stars \<Longrightarrow> dRA s = 0 \<and> dDEC s = 0 \<and> where_first (teffMod mp) (starT s) \<noteq> None"
  shows "angle_step mp dimX ss stars kPA st = Inr st"
  unfolding angle_step_def Let_def
proof (rule for_each_skip)
  fix v st0
  assume "v \<in> set (filter in_FOV (map (project ss (real_of_int (PAtab ! kPA))) stars))"
  then obtain s where s: "s \<in> set stars" and v: "v = project ss (real_of_int (PAtab ! kPA)) s"
    by auto
  show "star_step mp dimX ss kPA v st0 = Inr st0"
    unfolding v using assms(2) [OF s] assms(1)
    by (intro star_step_later_zero) (simp_all add: project_zero_offset)
qed

lemma sweep_zero_offset:
  assumes "\<And>s. s \<in> set stars \<Longrightarrow> dRA s = 0 \<and> dDEC s = 0 \<and> where_first (teffMod mp) (starT s) \<noteq> None"
  shows "sweep mp dimX ss stars st = angle_step mp dimX ss stars 0 st"
proof -
  have "for_each (angle_step mp dimX ss stars) [1..<nPA] st1 = Inr st1" for st1
    by (rule for_each_skip) (use assms in \<open>auto intro!: angle_step_later_zero\<close>)
  then have "for_each (angle_step mp dimX ss stars) [1..<nPA] = Inr"
    by (simp add: fun_eq_iff)
  then show ?thesis
    unfolding sweep_def angles_split by (simp add: bind_err_def split: sum.splits)
qed

lemmas ex_defs = ex_mp_def ex_model_def ex_ss_def ex_star_def ex_state_def zeros_def

lemmas step_defs = angle_step_def star_step_def overlap_window_def write_plane_def put_slice_def
  slice2_def slice_len_def slice_bound_def broadcasts_def project_def in_FOV_def bind_err_def
  py_round_def dimY_def PAtab_0 nPA_eq Let_def

lemma ex_first_angle_one:
  "\<exists>st'. angle_step ex_mp 8 ex_ss [ex_star 0 0] 0 ex_state = Inr st'"
  by (simp add: ex_defs step_defs)

text \<open>
  With the target alone in the field, planes 0 and 1 are written once each.
\<close>

theorem reference_planes_written_at_first_angle_only_witness:
  "\<exists>st'. sweep ex_mp 8 ex_ss [ex_star 0 0] ex_state = Inr st'
         \<and> count_list (written st') (Assigned, 0, 0) = 1
         \<and> count_list (written st') (Assigned, 1, 0) = 1"
proof -
  have "sweep ex_mp 8 ex_ss [ex_star 0 0] ex_state = angle_step ex_mp 8 ex_ss [ex_star 0 0] 0 ex_state"
    by (rule sweep_zero_offset) (simp add: ex_defs)
  with ex_first_angle_one obtain st' where run: "sweep ex_mp 8 ex_ss [ex_star 0 0] ex_state = Inr st'"
    by auto
  have fresh: "written ex_state = []"
    by (simp add: ex_state_def)
  have "length (filter (\<lambda>s. py_round (star_dx s) = 0 \<and> py_round (star_dy s) = 0
                        \<and> overlap_window ex_mp 8 0 0 \<noteq> None)
                  (filter in_FOV (map (project ex_ss 0) [ex_star 0 0]))) = 1"
    by (simp add: ex_defs step_defs)
  with reference_planes_written_at_first_angle_only [OF run fresh] run show ?thesis
    by simp
qed

lemma ex_first_angle_companion:
  "map_sum id (\<lambda>st. (written st, voxel (simuCube st) 0 0 0, voxel (simuCube st) 1 0 0))
     (angle_step ex_mp 8 ex_ss [ex_star 0 0, ex_companion] 0 ex_state)
     = Inr ([(Assigned, 0, 0), (Assigned, 1, 0), (Assigned, 0, 0), (Assigned, 1, 0)], 1 / 10, 1 / 10)"
  by (simp add: ex_companion_def ex_defs step_defs bcell_def powr_minus_divide)

lemma ex_first_angle_target:
  "map_sum id (\<lambda>st. (written st, voxel (simuCube st) 0 0 0, voxel (simuCube st) 1 0 0))
     (angle_step ex_mp 8 ex_ss [ex_star 0 0] 0 ex_state)
     = Inr ([(Assigned, 0, 0), (Assigned, 1, 0)], 1, 1)"
  by (simp add: ex_defs step_defs bcell_def)

text \<open>
  C1 fails on the code. The claim is that planes 0 and 1 are written exactly once, by the
  target, and by no other star. With a companion given at zero offset from the target and
  2.5 magnitudes fainter (\<open>binComp = [0, 0, 12.5, 12, 11.9]\<close>), the guard of line 183 holds for
  both stars at the first angle: planes 0 and 1 are assigned twice, and the companion's
  assignment replaces the target's traces, so that the pixel \<open>(0, 0)\<close> of both planes ends at
  \<open>0.1\<close>, where the run without the companion leaves the target's value \<open>1\<close>. The comments of
  lines 97 and 182 say that these planes hold the target's traces.
\<close>

theorem reference_planes_overwritten_by_companion:
  "map_sum id (\<lambda>st. (written st, voxel (simuCube st) 0 0 0, voxel (simuCube st) 1 0 0))
     (sossFieldSim fl ex_mp ex_info 10 20 (Some (0, 0, 25 / 2, 12, 119 / 10)) 8)
     = Inr ([(Assigned, 0, 0), (Assigned, 1, 0), (Assigned, 0, 0), (Assigned, 1, 0)], 1 / 10, 1 / 10)
   \<and> map_sum id (\<lambda>st. (written st, voxel (simuCube st) 0 0 0, voxel (simuCube st) 1 0 0))
        (sossFieldSim fl ex_mp ex_info 10 20 None 8)
     = Inr ([(Assigned, 0, 0), (Assigned, 1, 0)], 1, 1)"
proof
  have "sossFieldSim fl ex_mp ex_info 10 20 (Some (0, 0, 25 / 2, 12, 119 / 10)) 8
          = sweep ex_mp 8 ex_ss [ex_star 0 0, ex_companion] ex_state"
    by (simp add: sossFieldSim_def load_field_def target_index_def add_companion_def
          assign_teff_def star_teff_def color_separation_def make_star_def broadcast2_def
          argmin_def py_nth_def bind_err_def ex_info_def ex_companion_def ex_defs dimY_def Let_def)
  also have "\<dots> = angle_step ex_mp 8 ex_ss [ex_star 0 0, ex_companion] 0 ex_state"
    by (rule sweep_zero_offset) (auto simp: ex_companion_def ex_defs)
  finally show "map_sum id (\<lambda>st. (written st, voxel (simuCube st) 0 0 0, voxel (simuCube st) 1 0 0))
     (sossFieldSim fl ex_mp ex_info 10 20 (Some (0, 0, 25 / 2, 12, 119 / 10)) 8)
     = Inr ([(Assigned, 0, 0), (Assigned, 1, 0), (Assigned, 0, 0), (Assigned, 1, 0)], 1 / 10, 1 / 10)"
    by (simp only: ex_first_angle_companion)
next
  have "sossFieldSim fl ex_mp ex_info 10 20 None 8 = sweep ex_mp 8 ex_ss [ex_star 0 0] ex_state"
    by (simp add: sossFieldSim_def load_field_def target_index_def
          assign_teff_def star_teff_def color_separation_def make_star_def broadcast2_def
          argmin_def py_nth_def bind_err_def ex_info_def ex_defs dimY_def Let_def)
  also have "\<dots> = angle_step ex_mp 8 ex_ss [ex_star 0 0] 0 ex_state"
    by (rule sweep_zero_offset) (simp add: ex_defs)
  finally show "map_sum id (\<lambda>st. (written st, voxel (simuCube st) 0 0 0, voxel (simuCube st) 1 0 0))
        (sossFieldSim fl ex_mp ex_info 10 20 None 8)
     = Inr ([(Assigned, 0, 0), (Assigned, 1, 0)], 1, 1)"
    by (simp only: ex_first_angle_target)
qed

section \<open>Temperature assignment\<close>
















text \<open>
  The loop of lines 68-71 assigns every star the temperature \<open>star_teff\<close> gives for its
  own two colour indices.
\<close>

lemma map_err_Inr:
  "map_err f vs = Inr rs \<Longrightarrow> length rs = length vs \<and> (\<forall>j < length vs. f (vs ! j) = Inr (rs ! j))"
proof (induction vs arbitrary: rs)
  case Nil
  then show ?case by simp
next
  case (Cons v vs)
  then obtain r rs' where "f v = Inr r" "map_err f vs = Inr rs'" "rs = r # rs'"
    by (auto simp: bind_err_def split: sum.splits)
  with Cons.IH [of rs'] show ?case
    by (auto simp: nth_Cons split: nat.splits)
qed

lemma assign_teff_each_star:
  assumes "assign_teff fl mp fld = Inr starsT" and "j < length (allRA fld)"
  shows "length starsT = length (allRA fld)
       \<and> j < length (J_Hobs fld) \<and> j < length (H_Kobs fld)
       \<and> star_teff fl mp (J_Hobs fld ! j) (H_Kobs fld ! j) = Inr (starsT ! j)"
  using map_err_Inr [OF assms(1) [unfolded assign_teff_def]] assms(2)
  by (auto simp: bind_err_def py_nth_def split: sum.splits if_splits)

section \<open>The overlap window\<close>

text \<open>
  The window is rejected exactly under the two tests of lines 170-173; a window that is
  kept lies inside both arrays after clipping.
\<close>

lemma overlap_window_None_iff:
  "overlap_window mp dimX intx inty = None \<longleftrightarrow>
     (modelPadX mp - intx > dimXmod mp \<or> modelPadY mp - inty > dimYmod mp
      \<or> modelPadX mp - intx + dimX < 0 \<or> modelPadY mp - inty + dimY < 0)"
  by (auto simp: overlap_window_def Let_def)

lemma overlap_window_bounds:
  assumes "0 \<le> dimX" "0 \<le> dimXmod mp" "0 \<le> dimYmod mp"
    and "overlap_window mp dimX intx inty = Some w"
  shows "0 \<le> mx0 w \<and> mx0 w \<le> mx1 w \<and> mx1 w \<le> dimXmod mp
       \<and> 0 \<le> my0 w \<and> my0 w \<le> my1 w \<and> my1 w \<le> dimYmod mp
       \<and> 0 \<le> x0 w \<and> x0 w + (mx1 w - mx0 w) \<le> dimX
       \<and> 0 \<le> y0 w \<and> y0 w + (my1 w - my0 w) \<le> dimY"
  using assms
  by (auto simp: overlap_window_def Let_def dimY_def split: if_splits)

lemma slice_bound_inside: "0 \<le> i \<Longrightarrow> i \<le> n \<Longrightarrow> slice_bound n i = i"
  by (simp add: slice_bound_def)

lemma py_slice_inside: "0 \<le> a \<Longrightarrow> a \<le> b \<Longrightarrow> b \<le> n \<Longrightarrow> py_slice n a b = (a, b)"
  by (simp add: py_slice_def slice_bound_inside)

lemma slice_len_inside: "0 \<le> a \<Longrightarrow> a \<le> b \<Longrightarrow> b \<le> n \<Longrightarrow> slice_len n a b = nat (b - a)"
  by (simp add: slice_len_def slice_bound_inside)

text \<open>
  C7. For a star whose temperature is one of the models', with array dimensions that are
  not negative: if the raw window starts beyond the model array or ends before it
  (\<open>mx0 > dimXmod\<close>, \<open>my0 > dimYmod\<close>, \<open>mx1 < 0\<close> or \<open>my1 < 0\<close>), the pass returns the state
  unchanged; otherwise the clipped source slice \<open>[my0:my1, mx0:mx1]\<close> and destination slice
  \<open>[y0:y0+my1-my0, x0:x0+mx1-mx0]\<close> are index ranges Python leaves as they are (inside
  their arrays, start before end), and they have the same height and the same width.
\<close>

theorem star_window_skip_or_clip:
  assumes "0 \<le> dimX" and "0 \<le> dimXmod mp" and "0 \<le> dimYmod mp"
    and "where_first (teffMod mp) (starT s) = Some k"
  shows "((modelPadX mp - py_round (star_dx s) > dimXmod mp
           \<or> modelPadY mp - py_round (star_dy s) > dimYmod mp
           \<or> modelPadX mp - py_round (star_dx s) + dimX < 0
           \<or> modelPadY mp - py_round (star_dy s) + dimY < 0)
          \<longrightarrow> star_step mp dimX ss kPA s st = Inr st)
       \<and> (\<not> (modelPadX mp - py_round (star_dx s) > dimXmod mp
              \<or> modelPadY mp - py_round (star_dy s) > dimYmod mp
              \<or> modelPadX mp - py_round (star_dx s) + dimX < 0
              \<or> modelPadY mp - py_round (star_dy s) + dimY < 0)
          \<longrightarrow> (\<exists>w. overlap_window mp dimX (py_round (star_dx s)) (py_round (star_dy s)) = Some w
                 \<and> py_slice (dimYmod mp) (my0 w) (my1 w) = (my0 w, my1 w)
                 \<and> py_slice (dimXmod mp) (mx0 w) (mx1 w) = (mx0 w, mx1 w)
                 \<and> py_slice dimY (y0 w) (y0 w + my1 w - my0 w) = (y0 w, y0 w + my1 w - my0 w)
                 \<and> py_slice dimX (x0 w) (x0 w + mx1 w - mx0 w) = (x0 w, x0 w + mx1 w - mx0 w)
                 \<and> slice_len dimY (y0 w) (y0 w + my1 w - my0 w) = slice_len (dimYmod mp) (my0 w) (my1 w)
                 \<and> slice_len dimX (x0 w) (x0 w + mx1 w - mx0 w) = slice_len (dimXmod mp) (mx0 w) (mx1 w)))"
proof (intro conjI impI)
  assume "modelPadX mp - py_round (star_dx s) > dimXmod mp
           \<or> modelPadY mp - py_round (star_dy s) > dimYmod mp
           \<or> modelPadX mp - py_round (star_dx s) + dimX < 0
           \<or> modelPadY mp - py_round (star_dy s) + dimY < 0"
  then have "overlap_window mp dimX (py_round (star_dx s)) (py_round (star_dy s)) = None"
    by (simp add: overlap_window_None_iff)
  then show "star_step mp dimX ss kPA s st = Inr st"
    using assms(4) by (simp add: star_step_def Let_def)
next
  assume "\<not> (modelPadX mp - py_round (star_dx s) > dimXmod mp
           \<or> modelPadY mp - py_round (star_dy s) > dimYmod mp
           \<or> modelPadX mp - py_round (star_dx s) + dimX < 0
           \<or> modelPadY mp - py_round (star_dy s) + dimY < 0)"
  then have "overlap_window mp dimX (py_round (star_dx s)) (py_round (star_dy s)) \<noteq> None"
    by (simp only: overlap_window_None_iff not_False_eq_True)
  then obtain w where w: "overlap_window mp dimX (py_round (star_dx s)) (py_round (star_dy s)) = Some w"
    by blast
  note b = overlap_window_bounds [OF assms(1-3) w]
  have "py_slice (dimYmod mp) (my0 w) (my1 w) = (my0 w, my1 w)"
    using b by (simp add: py_slice_inside)
  moreover have "py_slice (dimXmod mp) (mx0 w) (mx1 w) = (mx0 w, mx1 w)"
    using b by (simp add: py_slice_inside)
  moreover have "py_slice dimY (y0 w) (y0 w + my1 w - my0 w) = (y0 w, y0 w + my1 w - my0 w)"
    using b by (intro py_slice_inside) auto
  moreover have "py_slice dimX (x0 w) (x0 w + mx1 w - mx0 w) = (x0 w, x0 w + mx1 w - mx0 w)"
    using b by (intro py_slice_inside) auto
  moreover have "slice_len dimY (y0 w) (y0 w + my1 w - my0 w) = slice_len (dimYmod mp) (my0 w) (my1 w)"
    using b by (simp add: slice_len_inside)
  moreover have "slice_len dimX (x0 w) (x0 w + mx1 w - mx0 w) = slice_len (dimXmod mp) (mx0 w) (mx1 w)"
    using b by (simp add: slice_len_inside)
  ultimately show "\<exists>w. overlap_window mp dimX (py_round (star_dx s)) (py_round (star_dy s)) = Some w
                 \<and> py_slice (dimYmod mp) (my0 w) (my1 w) = (my0 w, my1 w)
                 \<and> py_slice (dimXmod mp) (mx0 w) (mx1 w) = (mx0 w, mx1 w)
                 \<and> py_slice dimY (y0 w) (y0 w + my1 w - my0 w) = (y0 w, y0 w + my1 w - my0 w)
                 \<and> py_slice dimX (x0 w) (x0 w + mx1 w - mx0 w) = (x0 w, x0 w + mx1 w - mx0 w)
                 \<and> slice_len dimY (y0 w) (y0 w + my1 w - my0 w) = slice_len (dimYmod mp) (my0 w) (my1 w)
                 \<and> slice_len dimX (x0 w) (x0 w + mx1 w - mx0 w) = slice_len (dimXmod mp) (mx0 w) (mx1 w)"
    using w by blast
qed

text \<open>
  A star a hundred pixels to the left is skipped; one at offset \<open>(15, -2)\<close> is clipped to
  three columns on both sides.
\<close>

theorem star_window_skip_or_clip_witness:
  "star_step ex_mp 8 ex_ss 5 (ex_at (- 100) 0) ex_state = Inr ex_state
   \<and> (\<exists>w. overlap_window ex_mp 8 15 (- 2) = Some w
          \<and> py_slice (dimYmod ex_mp) (my0 w) (my1 w) = (my0 w, my1 w)
          \<and> py_slice (dimXmod ex_mp) (mx0 w) (mx1 w) = (mx0 w, mx1 w)
          \<and> py_slice dimY (y0 w) (y0 w + my1 w - my0 w) = (y0 w, y0 w + my1 w - my0 w)
          \<and> py_slice 8 (x0 w) (x0 w + mx1 w - mx0 w) = (x0 w, x0 w + mx1 w - mx0 w)
          \<and> slice_len dimY (y0 w) (y0 w + my1 w - my0 w) = slice_len (dimYmod ex_mp) (my0 w) (my1 w)
          \<and> slice_len 8 (x0 w) (x0 w + mx1 w - mx0 w) = slice_len (dimXmod ex_mp) (mx0 w) (mx1 w)
          \<and> (x0 w, y0 w, mx0 w, mx1 w, my0 w, my1 w) = (5, 0, 0, 3, 12, 2060))"
proof -
  have k: "where_first (teffMod ex_mp) (starT (ex_at a b)) = Some 0" for a b
    by (simp add: ex_at_def ex_defs)
  have r: "py_round (star_dx (ex_at (- 100) 0)) = - 100" "py_round (star_dy (ex_at (- 100) 0)) = 0"
    "py_round (star_dx (ex_at 15 (- 2))) = 15" "py_round (star_dy (ex_at 15 (- 2))) = - 2"
    by (simp_all add: ex_at_def ex_defs py_round_def)
  have "star_step ex_mp 8 ex_ss 5 (ex_at (- 100) 0) ex_state = Inr ex_state"
    using star_window_skip_or_clip [of 8 ex_mp "ex_at (- 100) 0" 0 ex_ss 5 ex_state, OF _ _ _ k]
    by (simp add: r) (simp add: ex_defs dimY_def)
  moreover have "\<exists>w. overlap_window ex_mp 8 15 (- 2) = Some w
          \<and> py_slice (dimYmod ex_mp) (my0 w) (my1 w) = (my0 w, my1 w)
          \<and> py_slice (dimXmod ex_mp) (mx0 w) (mx1 w) = (mx0 w, mx1 w)
          \<and> py_slice dimY (y0 w) (y0 w + my1 w - my0 w) = (y0 w, y0 w + my1 w - my0 w)
          \<and> py_slice 8 (x0 w) (x0 w + mx1 w - mx0 w) = (x0 w, x0 w + mx1 w - mx0 w)
          \<and> slice_len dimY (y0 w) (y0 w + my1 w - my0 w) = slice_len (dimYmod ex_mp) (my0 w) (my1 w)
          \<and> slice_len 8 (x0 w) (x0 w + mx1 w - mx0 w) = slice_len (dimXmod ex_mp) (mx0 w) (mx1 w)"
    using star_window_skip_or_clip [of 8 ex_mp "ex_at 15 (- 2)" 0 ex_ss 5 ex_state, OF _ _ _ k]
    by (simp add: r) (simp add: ex_defs dimY_def)
  moreover have "overlap_window ex_mp 8 15 (- 2)
                   = Some \<lparr>x0 = 5, y0 = 0, mx0 = 0, mx1 = 3, my0 = 12, my1 = 2060\<rparr>"
    by (simp add: overlap_window_def ex_defs dimY_def)
  ultimately show ?thesis by auto
qed

text \<open>
  When the models have the shape \<open>(dimYmod, dimXmod)\<close> and the cube the shape
  \<open>(nPA + 2, dimY, dimX)\<close>, a write through a kept window always fits: no pass of the loop
  body raises the ValueError of mismatched shapes.
\<close>

lemma write_plane_fits:
  assumes "int (n_rows src) = dimYmod mp" and "int (n_cols src) = dimXmod mp"
    and "int (height (simuCube st)) = dimY" and "int (width (simuCube st)) = dimX"
    and "p < n_planes (simuCube st)"
    and "0 \<le> dimX" and "0 \<le> dimXmod mp" and "0 \<le> dimYmod mp"
    and "overlap_window mp dimX intx inty = Some w"
  shows "\<exists>st'. write_plane acc p kPA w src f st = Inr st'
           \<and> height (simuCube st') = height (simuCube st) \<and> width (simuCube st') = width (simuCube st)
           \<and> n_planes (simuCube st') = n_planes (simuCube st)"
proof -
  note b = overlap_window_bounds [OF assms(6-9)]
  have "slice_len (int (n_rows src)) (my0 w) (my1 w) = nat (my1 w - my0 w)"
    "slice_len (int (n_cols src)) (mx0 w) (mx1 w) = nat (mx1 w - mx0 w)"
    using b assms(1,2) by (simp_all add: slice_len_inside)
  moreover have "slice_len (int (height (simuCube st))) (y0 w) (y0 w + my1 w - my0 w) = nat (my1 w - my0 w)"
    "slice_len (int (width (simuCube st))) (x0 w) (x0 w + mx1 w - mx0 w) = nat (mx1 w - mx0 w)"
    using b assms(3,4) by (simp_all add: slice_len_inside)
  ultimately show ?thesis
    using assms(5)
    by (simp add: write_plane_def put_slice_def slice2_def broadcasts_def bind_err_def Let_def)
qed

lemma star_step_no_shape_error:
  assumes models: "\<And>a. a \<in> set (models mp) \<Longrightarrow> int (n_rows a) = dimYmod mp \<and> int (n_cols a) = dimXmod mp"
    and files: "\<And>a b. (a, b) \<in> set (saveFiles mp) \<Longrightarrow>
                  int (n_rows a) = dimYmod mp \<and> int (n_cols a) = dimXmod mp
                  \<and> int (n_rows b) = dimYmod mp \<and> int (n_cols b) = dimXmod mp"
    and cube: "int (height (simuCube st)) = dimY" "int (width (simuCube st)) = dimX"
      "kPA + 2 < n_planes (simuCube st)"
    and dims: "0 \<le> dimX" "0 \<le> dimXmod mp" "0 \<le> dimYmod mp"
  shows "star_step mp dimX ss kPA s st \<noteq> Inl ValueError"
proof (cases "where_first (teffMod mp) (starT s)")
  case None
  then show ?thesis by (simp add: star_step_def Let_def)
next
  case (Some k)
  show ?thesis
  proof (cases "overlap_window mp dimX (py_round (star_dx s)) (py_round (star_dy s))")
    case None
    with Some show ?thesis by (simp add: star_step_def Let_def)
  next
    case w: (Some w)
    define f where "f = 10 powr (- (4 / 10) * (jmag s - ss_jmag ss))"
    show ?thesis
    proof (cases "py_round (star_dx s) = 0 \<and> py_round (star_dy s) = 0")
      case True
      show ?thesis
      proof (cases "kPA = 0 \<and> k < length (saveFiles mp)")
        case False
        with True Some w show ?thesis
          by (auto simp: star_step_def Let_def bind_err_def)
      next
        case k: True
        then have "(fst (saveFiles mp ! k), snd (saveFiles mp ! k)) \<in> set (saveFiles mp)"
          by simp
        note sh = files [OF this]
        from write_plane_fits [OF _ _ cube(1,2) _ dims w, of "fst (saveFiles mp ! k)" 0 False kPA f] sh cube(3)
        obtain st1 where 1: "write_plane False 0 kPA w (fst (saveFiles mp ! k)) f st = Inr st1"
          and d1: "height (simuCube st1) = height (simuCube st)" "width (simuCube st1) = width (simuCube st)"
            "n_planes (simuCube st1) = n_planes (simuCube st)"
          by auto
        from write_plane_fits [OF _ _ _ _ _ dims w, of "snd (saveFiles mp ! k)" st1 1 False kPA f] sh cube d1
        obtain st2 where 2: "write_plane False 1 kPA w (snd (saveFiles mp ! k)) f st1 = Inr st2"
          by auto
        from True Some w k 1 2 show ?thesis
          by (simp add: star_step_def Let_def bind_err_def f_def)
      qed
    next
      case False
      show ?thesis
      proof (cases "k < length (models mp)")
        case k: True
        then have "models mp ! k \<in> set (models mp)" by simp
        note sh = models [OF this]
        from write_plane_fits [OF _ _ cube(1,2) _ dims w, of "models mp ! k" "kPA + 2" True kPA f] sh cube(3)
        obtain st1 where 1: "write_plane True (kPA + 2) kPA w (models mp ! k) f st = Inr st1"
          by auto
        from False Some w k 1 show ?thesis
          by (auto simp: star_step_def Let_def bind_err_def f_def)
      next
        case k: False
        with False Some w show ?thesis
          by (auto simp: star_step_def Let_def bind_err_def)
      qed
    qed
  qed
qed

section \<open>Field membership and the accumulation guard\<close>

text \<open>
  C10. A pass of the loop body for a star whose offset rounds to \<open>(0, 0)\<close>, be it the target
  or a field star on the target's pixel, leaves plane \<open>kPA + 2\<close> as it was and records no
  accumulation: the branch of line 189 needs a rounded offset that is not zero in some
  axis.
\<close>

theorem zero_offset_star_adds_nothing:
  assumes "star_step mp dimX ss kPA s st = Inr st'"
    and "py_round (star_dx s) = 0" and "py_round (star_dy s) = 0"
  shows "voxel (simuCube st') (kPA + 2) = voxel (simuCube st) (kPA + 2)
       \<and> filter (\<lambda>e. fst e = Accumulated) (written st') = filter (\<lambda>e. fst e = Accumulated) (written st)"
  using assms(1)
proof (cases rule: star_step_cases)
  case unchanged
  then show ?thesis by simp
next
  case (target w a1 a2 f st1)
  have "voxel (simuCube st1) (kPA + 2) = voxel (simuCube st) (kPA + 2)"
    using target(4) by (rule write_plane_other_plane) simp
  moreover have "voxel (simuCube st') (kPA + 2) = voxel (simuCube st1) (kPA + 2)"
    using target(5) by (rule write_plane_other_plane) simp
  moreover have "written st' = written st @ [(Assigned, 0, kPA), (Assigned, 1, kPA)]"
    using write_plane_written [OF target(4)] write_plane_written [OF target(5)] by simp
  ultimately show ?thesis by simp
next
  case (field w a f)
  with assms(2,3) show ?thesis by simp
qed

text \<open>
  A field star at offset \<open>(0.4, -0.5)\<close> at the first angle: both offsets round to zero, the
  pass writes the planes 0 and 1 and adds nothing to plane 2.
\<close>

theorem zero_offset_star_adds_nothing_witness:
  "\<exists>st'. star_step ex_mp 8 ex_ss 0 (ex_at (2 / 5) (- 1 / 2)) ex_state = Inr st'
         \<and> written st' = [(Assigned, 0, 0), (Assigned, 1, 0)]
         \<and> voxel (simuCube st') 2 = voxel (simuCube ex_state) 2
         \<and> filter (\<lambda>e. fst e = Accumulated) (written st') = []"
proof -
  have r: "py_round (star_dx (ex_at (2 / 5) (- 1 / 2))) = 0" "py_round (star_dy (ex_at (2 / 5) (- 1 / 2))) = 0"
    by (simp_all add: ex_at_def ex_defs py_round_def)
  have "\<exists>st'. star_step ex_mp 8 ex_ss 0 (ex_at (2 / 5) (- 1 / 2)) ex_state = Inr st'
          \<and> written st' = [(Assigned, 0, 0), (Assigned, 1, 0)]"
    by (simp add: ex_at_def ex_defs step_defs)
  then obtain st' where run: "star_step ex_mp 8 ex_ss 0 (ex_at (2 / 5) (- 1 / 2)) ex_state = Inr st'"
    and log: "written st' = [(Assigned, 0, 0), (Assigned, 1, 0)]"
    by blast
  from zero_offset_star_adds_nothing [OF run r] run log show ?thesis
    by (simp add: ex_state_def numeral_2_eq_2)
qed

text \<open>
  C8. A star whose projected position at the angle of index \<open>kPA\<close> lies outside
  \<open>x \<in> [-162, 2047+185]\<close>, \<open>y \<in> [-154, 2047+174]\<close> contributes nothing at that angle: the
  angle's pass over the field gives the same result with the star as without it.
\<close>

theorem star_outside_field_contributes_nothing:
  assumes "star_x (project ss (real_of_int (PAtab ! kPA)) s) < - 162
         \<or> star_x (project ss (real_of_int (PAtab ! kPA)) s) > 2047 + 185
         \<or> star_y (project ss (real_of_int (PAtab ! kPA)) s) < - 154
         \<or> star_y (project ss (real_of_int (PAtab ! kPA)) s) > 2047 + 174"
  shows "angle_step mp dimX ss (before @ s # after) kPA st = angle_step mp dimX ss (before @ after) kPA st"
proof -
  have "\<not> in_FOV (project ss (real_of_int (PAtab ! kPA)) s)"
    using assms by (auto simp: in_FOV_def)
  then show ?thesis
    by (simp add: angle_step_def)
qed

text \<open>
  A star 1000 arcsec east of the target is far above the field at angle 0.
\<close>

theorem star_outside_field_contributes_nothing_witness:
  "star_y (project ex_ss (real_of_int (PAtab ! 0)) (ex_star 1000 0)) = 200000 / 13 + 107
   \<and> angle_step ex_mp 8 ex_ss [ex_star 0 0, ex_star 1000 0] 0 ex_state
       = angle_step ex_mp 8 ex_ss [ex_star 0 0] 0 ex_state"
proof
  show y: "star_y (project ex_ss (real_of_int (PAtab ! 0)) (ex_star 1000 0)) = 200000 / 13 + 107"
    by (simp add: PAtab_0 project_def ex_defs niriss_pixel_scale_def)
  show "angle_step ex_mp 8 ex_ss [ex_star 0 0, ex_star 1000 0] 0 ex_state
       = angle_step ex_mp 8 ex_ss [ex_star 0 0] 0 ex_state"
    using star_outside_field_contributes_nothing [of ex_ss 0 "ex_star 1000 0" ex_mp 8 "[ex_star 0 0]" "[]" ex_state]
    by (simp add: y)
qed

section \<open>The companion\<close>

text \<open>
  What lines 40-44 append: one entry to each array, but \<open>Hmag\<close> is rebuilt from \<open>Kmag\<close>.
\<close>

lemma add_companion_appends:
  assumes "add_companion fld t (bRA, bDEC, bJ, bH, bK) = Inr fld'"
  shows "length (allRA fld') = length (allRA fld) + 1"
    and "Jmag fld' = Jmag fld @ [bJ]" and "Hmag fld' = Kmag fld @ [bH]" and "Kmag fld' = Kmag fld @ [bK]"
  using assms
  by (auto simp: add_companion_def bind_err_def Let_def split: sum.splits)

text \<open>
  C9 fails on the code. For a catalogue star with \<open>J = 10\<close>, \<open>H = 9.5\<close>, \<open>K = 9\<close> and
  \<open>binComp = [5, 0, 10, 9.8, 9.7]\<close>, line 43 replaces the star's \<open>H\<close> by its \<open>K\<close>: its
  colour indices become \<open>J - H = 1\<close> and \<open>H - K = 0\<close>, where its own magnitudes give \<open>0.5\<close>
  and \<open>0.5\<close>.
\<close>

theorem add_companion_overwrites_H:
  "map_sum id Hmag (add_companion ex_field 0 (5, 0, 10, 49 / 5, 97 / 10)) = Inr [9, 49 / 5]
   \<and> map_sum id J_Hobs (add_companion ex_field 0 (5, 0, 10, 49 / 5, 97 / 10)) = Inr [1, 1 / 5]
   \<and> map_sum id H_Kobs (add_companion ex_field 0 (5, 0, 10, 49 / 5, 97 / 10)) = Inr [0, 1 / 10]
   \<and> Hmag ex_field = [19 / 2] \<and> J_Hobs ex_field = [1 / 2] \<and> H_Kobs ex_field = [1 / 2]"
  by (simp add: add_companion_def broadcast2_def py_nth_def bind_err_def ex_field_def Let_def)

section \<open>Properties of ModelGrid\<close>

text \<open>
  \<open>grid_interp\<close> never returns a value, whatever the grid and the parameters.
\<close>

lemma grid_interp_raises: "isl (fst (grid_interp d fs T g m w))"
  by (cases d) (auto split: prod.splits sum.splits option.splits)

text \<open>
  When the cut leaves no row, \<open>customize\<close> restores the table and recomputes the ranges
  from it, after \<open>wave_rng\<close> and \<open>n_bins\<close> have been set.
\<close>

lemma customize_empty_cut:
  assumes "filter (\<lambda>r. Teff r \<ge> fst tr \<and> Teff r \<le> snd tr
                        \<and> logg r \<ge> fst lr \<and> logg r \<le> snd lr
                        \<and> FeH r \<ge> fst fr \<and> FeH r \<le> snd fr) (data G) = []"
  shows "customize G tr lr fr wr nb
           = update_attributes (G\<lparr>wave_rng := wr,
                n_bins := (case nb of None \<Rightarrow> n_bins G | Some n \<Rightarrow> if n = 0 then n_bins G else n)\<rparr>)"
  using assms by (simp add: customize_def Let_def)

text \<open>
  C2 fails on the code. On a grid of one model at \<open>Teff = 3000\<close>, the call
  \<open>customize(Teff_rng=(5000, 6000), wave_rng=(1, 2), n_bins=100)\<close> leaves no row; it returns
  without an exception and keeps the table, the ranges and the value lists, but
  \<open>wave_rng\<close> is now \<open>(1, 2)\<close> and \<open>n_bins\<close> is \<open>100\<close>.
\<close>

theorem customize_empty_cut_changes_wave_rng:
  "customize ex_grid (5000, 6000) (0, 6) (- 3, 3) (1, 2) (Some 100)
     = Inr (ex_grid\<lparr>wave_rng := (1, 2), n_bins := 100\<rparr>)
   \<and> wave_rng ex_grid = (0, 40) \<and> n_bins ex_grid = 10000000000"
  by (simp add: customize_def update_attributes_def bind_err_def ex_grid_def ex_row_def unique_def Let_def)

text \<open>
  C3 as stated fails: for \<open>Teff = 9000\<close> on a grid whose range is \<open>[3000, 3000]\<close>, \<open>get\<close>
  raises nothing; it returns \<open>None\<close>.
\<close>

theorem get_out_of_range_no_error:
  "get 1000 ex_fs 9000 5 0 ex_world = (Inr None, ex_world)"
  by (simp add: eval_nat_numeral in_grid_def ex_world_def ex_grid_def)

text \<open>
  C3, as amended. When any of the three parameters lies outside the recorded range of its
  axis, \<open>get\<close> returns \<open>None\<close> without raising, with no model file read and the grid
  unchanged (while the stack admits the call at all).
\<close>

theorem get_out_of_range_returns_None:
  assumes "T < fst (Teff_rng (grid w)) \<or> T > snd (Teff_rng (grid w))
         \<or> g < fst (logg_rng (grid w)) \<or> g > snd (logg_rng (grid w))
         \<or> m < fst (FeH_rng (grid w)) \<or> m > snd (FeH_rng (grid w))"
  shows "get (Suc d) fs T g m w = (Inr None, w)"
  using assms by (auto simp: in_grid_def)

text \<open>
  A surface gravity of 7 on a grid whose range is \<open>[5, 5]\<close>.
\<close>

theorem get_out_of_range_returns_None_witness:
  "get (Suc 999) ex_fs 3000 7 0 ex_world = (Inr None, ex_world)
   \<and> files_read (snd (get (Suc 999) ex_fs 3000 7 0 ex_world)) = []"
  using get_out_of_range_returns_None [of 3000 ex_world 7 0 999 ex_fs]
  by (simp add: ex_world_def ex_grid_def)

text \<open>
  C4 fails on the code. At the grid point \<open>(3000, 5, 0)\<close>, \<open>get\<close> returns the model with its
  wavelengths, and \<open>grid_interp\<close> at the same point raises UnboundLocalError.
\<close>

theorem grid_interp_raises_at_grid_point:
  "map_sum id (map_option sd_wave) (fst (get 1000 ex_fs 3000 5 0 ex_world)) = Inr (Some [1, 2])
   \<and> fst (grid_interp 1000 ex_fs 3000 5 0 ex_world) = Inl UnboundLocalError"
  by (simp add: eval_nat_numeral in_grid_def on_grid_def matching_rows_def get_on_grid_def
        grid_triples_def enumerate_eq_zip store_flux_def broadcasts_def
        ex_world_def ex_grid_def ex_row_def ex_fs_def Let_def)

end
